theory Spec2Isabelle
  imports Complex_Main
begin

section \<open>Python values shared by the handlers\<close>

text \<open>
  Every exception the handlers can raise is a value of \<open>error\<close>; a function that may
  raise returns \<open>error + 'a\<close> with \<open>Inl\<close> for the exception.
\<close>

datatype error =
    StoreUnavailable
  | IndexUnavailable
  | InferenceFailure
  | CollectionMissing string
  | KeyError string
  | IndexError
  | TypeError

text \<open>Truthiness of an \<open>Optional[str]\<close>: \<open>None\<close> and the empty string are falsy.\<close>

fun truthy :: "string option \<Rightarrow> bool" where
  "truthy None = False"
| "truthy (Some s) = (s \<noteq> [])"

text \<open>
  A Python \<open>dict\<close> whose iteration order matters is an association list in insertion
  order: assigning to a present key keeps its position, a new key goes to the end.
\<close>

fun dict_get :: "('k \<times> 'v) list \<Rightarrow> 'k \<Rightarrow> 'v option" where
  "dict_get [] k = None"
| "dict_get ((k', v) # kvs) k = (if k' = k then Some v else dict_get kvs k)"

fun dict_set :: "'k \<Rightarrow> 'v \<Rightarrow> ('k \<times> 'v) list \<Rightarrow> ('k \<times> 'v) list" where
  "dict_set k v [] = [(k, v)]"
| "dict_set k v ((k', v') # kvs) =
     (if k' = k then (k, v) # kvs else (k', v') # dict_set k v kvs)"

text \<open>The slice \<open>xs[:k]\<close>: a negative \<open>k\<close> counts from the end.\<close>

definition py_take :: "int \<Rightarrow> 'a list \<Rightarrow> 'a list" where
  "py_take k xs = (if 0 \<le> k then take (nat k) xs else take (nat (int (length xs) + k)) xs)"

text \<open>\<open>sorted(xs, key=f, reverse=True)\<close> is stable: equal keys keep their input order.\<close>

definition sorted_reverse :: "('a \<Rightarrow> 'b::{linorder, uminus}) \<Rightarrow> 'a list \<Rightarrow> 'a list" where
  "sorted_reverse f xs = sort_key (\<lambda>x. - f x) xs"

text \<open>\<open>str.strip()\<close> on ASCII text: drop leading and trailing whitespace.\<close>

definition isspace :: "char \<Rightarrow> bool" where
  "isspace c = (c \<in> set [CHR '' '', CHR 0x09, CHR 0x0A, CHR 0x0B, CHR 0x0C, CHR 0x0D,
                          CHR 0x1C, CHR 0x1D, CHR 0x1E, CHR 0x1F])"

definition strip :: "string \<Rightarrow> string" where
  "strip s = rev (dropWhile isspace (rev (dropWhile isspace s)))"

text \<open>Decimal rendering of an integer, as an f-string prints it.\<close>

definition digit_char :: "nat \<Rightarrow> char" where
  "digit_char d = char_of (48 + d)"

function string_of_nat :: "nat \<Rightarrow> string" where
  "string_of_nat n =
     (if n < 10 then [digit_char n] else string_of_nat (n div 10) @ [digit_char (n mod 10)])"
  by pat_completeness auto
termination
  by (relation "measure id") auto

definition string_of_int :: "int \<Rightarrow> string" where
  "string_of_int i = (if i < 0 then CHR ''-'' # string_of_nat (nat (- i)) else string_of_nat (nat i))"

section \<open>The identity store and the role cache (user_role_handler.py)\<close>

text \<open>
  The frontend MySQL database is reached through \<open>execute_query\<close>, which returns the
  rows or raises. The three statements of \<open>UserRoleService\<close> that matter here are the
  fields of \<open>identity_store\<close>: the user query (\<open>User\<close> with \<open>Status = 10\<close>), the
  membership join (\<open>OrganizationUser\<close> with \<open>Organization\<close>) and the direct role query.
  Of a user row only the columns used for control flow are kept; the profile columns
  are copied into the result unchanged by the source and play no part below.
\<close>

record user_row =
  Id :: string
  DefaultOrganizationId :: "string option"

record membership_row =
  OrganizationId :: string
  organization_name :: string
  organization_code :: string
  role_id :: int

record identity_store =
  user_query :: "string \<Rightarrow> error + user_row list"
  role_query :: "string \<Rightarrow> error + membership_row list"
  direct_role_query :: "string \<Rightarrow> string \<Rightarrow> error + int list"

datatype statement = UserQuery string | RoleQuery string | DirectRoleQuery string string

record org_entry =
  org_organization_id :: string
  org_name :: string
  org_code :: string
  org_role :: string

text \<open>
  A value of the user cache: the full dictionary built by \<open>get_user_info_with_roles\<close>,
  or the dictionary \<open>{"exists": b}\<close> that \<open>verify_user_exists\<close> stores, which has no
  \<open>"roles"\<close> key.
\<close>

datatype user_info =
    UserInfo (info_user_id: string) (default_organization_id: "string option")
             (organizations: "org_entry list") (roles: "(string \<times> string) list")
  | ExistsOnly bool

text \<open>
  The service: its three caches, and \<open>issued\<close>, the statements sent to the identity
  store so far (not a field of the source; it records the calls of \<open>execute_query\<close>).
  Each call of a method reads the clock as \<open>now\<close>.
\<close>

record role_service =
  role_cache :: "(string \<times> string) \<Rightarrow> (string option \<times> real) option"
  user_cache :: "string \<Rightarrow> (user_info \<times> real) option"
  org_cache :: "string \<Rightarrow> (bool \<times> real) option"
  issued :: "statement list"

definition UserRoleService :: role_service where
  "UserRoleService = \<lparr>role_cache = Map.empty, user_cache = Map.empty, org_cache = Map.empty,
                       issued = []\<rparr>"

definition cache_ttl :: real where
  "cache_ttl = 300"

definition is_cache_valid :: "real \<Rightarrow> real \<Rightarrow> bool" where
  "is_cache_valid now timestamp = (now - timestamp < cache_ttl)"

definition role_of_id :: "int \<Rightarrow> string" where
  "role_of_id r = (if r = 10 then ''ADMIN'' else if r = 90 then ''USER''
                   else ''ROLE_'' @ string_of_int r)"

definition execute :: "statement \<Rightarrow> role_service \<Rightarrow> role_service" where
  "execute q s = s\<lparr>issued := issued s @ [q]\<rparr>"

text \<open>One iteration of the loop over the membership rows.\<close>

definition role_row_step ::
  "real \<Rightarrow> string \<Rightarrow> membership_row \<Rightarrow>
   (string \<times> string) list \<times> org_entry list \<times> role_service \<Rightarrow>
   (string \<times> string) list \<times> org_entry list \<times> role_service" where
  "role_row_step now uid row acc =
     (case acc of (rs, orgs, s) \<Rightarrow>
        let org_id = OrganizationId row;
            role = role_of_id (role_id row)
        in (dict_set org_id role rs,
            orgs @ [\<lparr>org_organization_id = org_id, org_name = organization_name row,
                      org_code = organization_code row, org_role = role\<rparr>],
            s\<lparr>role_cache := (role_cache s)((uid, org_id) \<mapsto> (Some role, now)),
              org_cache := (org_cache s)(org_id \<mapsto> (True, now))\<rparr>))"

definition get_user_info_with_roles ::
  "identity_store \<Rightarrow> real \<Rightarrow> string \<Rightarrow> role_service \<Rightarrow> user_info option \<times> role_service" where
  "get_user_info_with_roles db now uid s =
     (case (case user_cache s uid of
              Some (cached_info, timestamp) \<Rightarrow>
                if is_cache_valid now timestamp then Some cached_info else None
            | None \<Rightarrow> None) of
        Some cached_info \<Rightarrow> (Some cached_info, s)
      | None \<Rightarrow>
          (let s1 = execute (UserQuery uid) s in
           case user_query db uid of
             Inl e \<Rightarrow> (None, s1)
           | Inr [] \<Rightarrow> (None, s1)
           | Inr (user_info # _) \<Rightarrow>
               (let s2 = execute (RoleQuery uid) s1 in
                case role_query db uid of
                  Inl e \<Rightarrow> (None, s2)
                | Inr role_results \<Rightarrow>
                    (case fold (role_row_step now uid) role_results ([], [], s2) of
                       (rs, orgs, s3) \<Rightarrow>
                         (let result = UserInfo (Id user_info) (DefaultOrganizationId user_info)
                                                orgs rs
                          in (Some result,
                              s3\<lparr>user_cache := (user_cache s3)(uid \<mapsto> (result, now))\<rparr>))))))"

definition get_user_role ::
  "identity_store \<Rightarrow> real \<Rightarrow> string \<Rightarrow> string \<Rightarrow> role_service \<Rightarrow> string option \<times> role_service" where
  "get_user_role db now uid oid s =
     (case (case role_cache s (uid, oid) of
              Some (role, timestamp) \<Rightarrow> if is_cache_valid now timestamp then Some role else None
            | None \<Rightarrow> None) of
        Some role \<Rightarrow> (role, s)
      | None \<Rightarrow>
          (case get_user_info_with_roles db now uid s of
             (Some (UserInfo i d orgs rs), s1) \<Rightarrow> (dict_get rs oid, s1)
           | (_, s1) \<Rightarrow>
               (let s2 = execute (DirectRoleQuery uid oid) s1 in
                case direct_role_query db uid oid of
                  Inl e \<Rightarrow> (None, s2)
                | Inr [] \<Rightarrow> (None, s2\<lparr>role_cache := (role_cache s2)((uid, oid) \<mapsto> (None, now))\<rparr>)
                | Inr (r # _) \<Rightarrow>
                    (let role = role_of_id r
                     in (Some role,
                         s2\<lparr>role_cache := (role_cache s2)((uid, oid) \<mapsto> (Some role, now))\<rparr>)))))"

definition is_admin ::
  "identity_store \<Rightarrow> real \<Rightarrow> string \<Rightarrow> string \<Rightarrow> role_service \<Rightarrow> bool \<times> role_service" where
  "is_admin db now uid oid s =
     (case get_user_role db now uid oid s of (role, s') \<Rightarrow> (role = Some ''ADMIN'', s'))"

definition clear_cache :: "string option \<Rightarrow> string option \<Rightarrow> role_service \<Rightarrow> role_service" where
  "clear_cache user_id organization_id s =
     (if truthy user_id \<and> truthy organization_id then
        s\<lparr>role_cache := (role_cache s)((the user_id, the organization_id) := None)\<rparr>
      else if truthy user_id then
        s\<lparr>user_cache := (user_cache s)(the user_id := None),
          role_cache := (\<lambda>k. if fst k = the user_id then None else role_cache s k)\<rparr>
      else if truthy organization_id then
        s\<lparr>org_cache := (org_cache s)(the organization_id := None),
          role_cache := (\<lambda>k. if snd k = the organization_id then None else role_cache s k)\<rparr>
      else
        s\<lparr>role_cache := Map.empty, user_cache := Map.empty, org_cache := Map.empty\<rparr>)"

section \<open>Collection records and permissions (collection_management_service.py)\<close>

record collection =
  collection_id :: string
  user_id :: string
  collection_name :: string
  organization_id :: "string option"
  is_personal :: bool

text \<open>
  The relational store: the rows of \<open>vectorstore_collection\<close>, or a store whose session
  raises. The column \<open>collection_name\<close> is nullable in the schema; \<open>create_collection\<close>,
  the only writer, always stores a name, so the field is a string here.
\<close>

datatype relational_db = Db "collection list" | DbDown

definition query_first :: "relational_db \<Rightarrow> string \<Rightarrow> error + collection option" where
  "query_first rdb name =
     (case rdb of
        DbDown \<Rightarrow> Inl StoreUnavailable
      | Db rows \<Rightarrow> Inr (find (\<lambda>c. collection_name c = name) rows))"

text \<open>
  \<open>check_collection_permission\<close>. The parameter \<open>is_personal_arg\<close> is accepted and never
  read by the source. The admin check builds a new \<open>UserRoleService\<close>, so its caches
  are empty.
\<close>

definition check_collection_permission ::
  "relational_db \<Rightarrow> identity_store \<Rightarrow> real \<Rightarrow>
   string \<Rightarrow> string \<Rightarrow> string option \<Rightarrow> bool \<Rightarrow> string \<Rightarrow> bool" where
  "check_collection_permission rdb db now uid name org is_personal_arg required_permission =
     (case query_first rdb name of
        Inl e \<Rightarrow> False
      | Inr None \<Rightarrow> False
      | Inr (Some c) \<Rightarrow>
          if is_personal c then user_id c = uid
          else if truthy (organization_id c) \<and> organization_id c = org then
            (if required_permission = ''read'' then True
             else if user_id c = uid then True
             else fst (is_admin db now uid (the org) UserRoleService))
          else False)"

text \<open>\<open>SearchRetrieval.check_collection_access\<close> delegates, leaving \<open>is_personal\<close> at its default.\<close>

definition check_collection_access ::
  "relational_db \<Rightarrow> identity_store \<Rightarrow> real \<Rightarrow> string \<Rightarrow> string \<Rightarrow> string option \<Rightarrow> string \<Rightarrow> bool" where
  "check_collection_access rdb db now uid name org required_permission =
     check_collection_permission rdb db now uid name org False required_permission"

section \<open>Notions used to state the cache properties\<close>

text \<open>
  At time \<open>now\<close> the service holds no valid role entry for \<open>(uid, oid)\<close> and no valid
  user entry for \<open>uid\<close>: each is absent or at least \<open>cache_ttl\<close> old.
\<close>

definition no_valid_entry :: "real \<Rightarrow> string \<Rightarrow> string \<Rightarrow> role_service \<Rightarrow> bool" where
  "no_valid_entry now uid oid s =
     ((case role_cache s (uid, oid) of None \<Rightarrow> True | Some (r, ts) \<Rightarrow> \<not> is_cache_valid now ts)
      \<and> (case user_cache s uid of None \<Rightarrow> True | Some (i, ts) \<Rightarrow> \<not> is_cache_valid now ts))"

text \<open>
  The identity store answers the statements a lookup of \<open>(uid, oid)\<close> sends: the user
  query, then the membership join when a user row came back and the direct role query
  when none did.
\<close>

definition store_answers :: "identity_store \<Rightarrow> string \<Rightarrow> string \<Rightarrow> bool" where
  "store_answers db uid oid =
     (case user_query db uid of
        Inl e \<Rightarrow> False
      | Inr [] \<Rightarrow> (case direct_role_query db uid oid of Inl e \<Rightarrow> False | Inr rs \<Rightarrow> True)
      | Inr (u # us) \<Rightarrow> (case role_query db uid of Inl e \<Rightarrow> False | Inr rows \<Rightarrow> True))"

text \<open>
  The loop over the membership rows keeps this relation between the \<open>roles\<close> dictionary
  under construction and the role cache.
\<close>

definition role_inv :: "real \<Rightarrow> string \<Rightarrow> string \<Rightarrow> role_service \<Rightarrow>
   (string \<times> string) list \<times> org_entry list \<times> role_service \<Rightarrow> bool" where
  "role_inv now uid oid s0 acc =
     (case acc of (rs, orgs, s) \<Rightarrow>
        issued s = issued s0 \<and> user_cache s = user_cache s0 \<and>
        (case dict_get rs oid of
           None \<Rightarrow> role_cache s (uid, oid) = role_cache s0 (uid, oid)
         | Some r \<Rightarrow> role_cache s (uid, oid) = Some (Some r, now)))"

section \<open>Documents and the vector index (qdrant_connection_helper.py)\<close>

text \<open>
  The metadata dictionary of a document, with the keys the handlers read or write:
  \<open>document_name\<close>, \<open>headers\<close> and \<open>document_id\<close> come from the payload (a key may be
  missing), \<open>source_collection\<close> and \<open>is_personal\<close> are written by the multi-collection
  retriever. A dictionary has no attribute \<open>score\<close>.
\<close>

record metadata =
  document_name :: "string option"
  headers :: "string option"
  document_id :: "string option"
  source_collection :: "string option"
  md_is_personal :: "bool option"

record document =
  page_content :: string
  metadata :: metadata

record point =
  payload_page_content :: string
  payload_metadata :: metadata

text \<open>
  The query text after \<open>qdrant_retrieval\<close> has unwrapped it: a string, or \<open>None\<close> when a
  dictionary without the key \<open>query\<close> was passed.
\<close>

datatype query_arg = QueryString string | QueryDict "string option"

fun unwrap_query :: "query_arg \<Rightarrow> string option" where
  "unwrap_query (QueryString q) = Some q"
| "unwrap_query (QueryDict q) = q"

text \<open>
  The Qdrant client. \<open>query_points_hybrid\<close> is the call of \<open>hybrid_search\<close> (two prefetches,
  late-interaction query, limit 20); \<open>query_points_section\<close> is the call of
  \<open>query_headers\<close>, filtered by document name and headers, ordered by
  \<open>metadata.index\<close>, with the collection's point count as limit. Each call returns or
  raises.
\<close>

record qdrant_client =
  collection_exists :: "string \<Rightarrow> error + bool"
  get_collection :: "string \<Rightarrow> error + nat"
  query_points_hybrid ::
    "string \<Rightarrow> real list \<Rightarrow> (nat \<times> real) list \<Rightarrow> real list list \<Rightarrow> error + point list"
  query_points_section :: "string \<Rightarrow> string \<Rightarrow> string \<Rightarrow> nat \<Rightarrow> error + point list"

record embedding_models =
  text_embedding_model :: "string option \<Rightarrow> error + real list"
  bm25_embedding_model :: "string option \<Rightarrow> error + (nat \<times> real) list"
  late_interaction_text_embedding_model :: "string option \<Rightarrow> error + real list list"

definition point_to_document :: "point \<Rightarrow> document" where
  "point_to_document p = \<lparr>page_content = payload_page_content p, metadata = payload_metadata p\<rparr>"

definition hybrid_search ::
  "qdrant_client \<Rightarrow> embedding_models \<Rightarrow> string option \<Rightarrow> string \<Rightarrow> error + document list" where
  "hybrid_search cl em query name =
     (case collection_exists cl name of
        Inl e \<Rightarrow> Inl e
      | Inr False \<Rightarrow> Inl (CollectionMissing name)
      | Inr True \<Rightarrow>
          (case text_embedding_model em query of
             Inl e \<Rightarrow> Inl e
           | Inr dense_query_vector \<Rightarrow>
               (case bm25_embedding_model em query of
                  Inl e \<Rightarrow> Inl e
                | Inr sparse_query_vector \<Rightarrow>
                    (case late_interaction_text_embedding_model em query of
                       Inl e \<Rightarrow> Inl e
                     | Inr late_query_vector \<Rightarrow>
                         (case query_points_hybrid cl name dense_query_vector
                                 sparse_query_vector late_query_vector of
                            Inl e \<Rightarrow> Inl e
                          | Inr points \<Rightarrow> Inr (map point_to_document points))))))"

text \<open>
  \<open>query_headers\<close>. The dictionary \<open>processed_documents\<close> is keyed by the \<open>headers\<close>
  value alone; the follow-up query filters by document name and headers. A missing
  key read with \<open>doc.metadata[...]\<close> raises \<open>KeyError\<close>.
\<close>

record section_entry =
  document :: document
  score :: nat

fun process_documents ::
  "qdrant_client \<Rightarrow> string \<Rightarrow> nat \<Rightarrow> document list \<Rightarrow>
   (string \<times> section_entry) list \<Rightarrow> error + (string \<times> section_entry) list" where
  "process_documents cl name vectors_count [] processed = Inr processed"
| "process_documents cl name vectors_count (doc # docs) processed =
     (case headers (metadata doc) of
        None \<Rightarrow> Inl (KeyError ''headers'')
      | Some h \<Rightarrow>
          (case dict_get processed h of
             Some entry \<Rightarrow>
               process_documents cl name vectors_count docs
                 (dict_set h (entry\<lparr>score := score entry + 1\<rparr>) processed)
           | None \<Rightarrow>
               (case document_name (metadata doc) of
                  None \<Rightarrow> Inl (KeyError ''document_name'')
                | Some dn \<Rightarrow>
                    (case query_points_section cl name dn h vectors_count of
                       Inl e \<Rightarrow> Inl e
                     | Inr points \<Rightarrow>
                         (case document_id (metadata doc) of
                            None \<Rightarrow> Inl (KeyError ''document_id'')
                          | Some did \<Rightarrow>
                              process_documents cl name vectors_count docs
                                (dict_set h
                                   \<lparr>document =
                                      \<lparr>page_content = concat (map payload_page_content points),
                                       metadata = \<lparr>document_name = Some dn, headers = Some h,
                                                   document_id = Some did,
                                                   source_collection = None,
                                                   md_is_personal = None\<rparr>\<rparr>,
                                    score = 1\<rparr>
                                   processed))))))"

text \<open>The sections with their scores, in the order \<open>query_headers\<close> returns them.\<close>

definition query_headers_scored ::
  "qdrant_client \<Rightarrow> document list \<Rightarrow> string \<Rightarrow> error + section_entry list" where
  "query_headers_scored cl documents name =
     (case get_collection cl name of
        Inl e \<Rightarrow> Inl e
      | Inr vectors_count \<Rightarrow>
          (case process_documents cl name vectors_count documents [] of
             Inl e \<Rightarrow> Inl e
           | Inr processed_documents \<Rightarrow>
               Inr (map snd (sorted_reverse (\<lambda>item. int (score (snd item))) processed_documents))))"

definition query_headers ::
  "qdrant_client \<Rightarrow> document list \<Rightarrow> string \<Rightarrow> error + document list" where
  "query_headers cl documents name =
     (case query_headers_scored cl documents name of
        Inl e \<Rightarrow> Inl e
      | Inr sorted_documents \<Rightarrow> Inr (map document sorted_documents))"

section \<open>Reranking inside retrieval (retrieval_handler.py)\<close>

text \<open>
  \<open>compute_score\<close> of the reranker takes the batch of (query, content) pairs and returns
  the normalized scores, or raises; the scalar it returns for a batch of one is wrapped
  into an array by the source, so the result is a list in every case.
\<close>

type_synonym reranker = "(string option \<times> string) list \<Rightarrow> error + real list"

text \<open>
  The indices that survive the threshold, in rank order: \<open>sorted_indices\<close>,
  \<open>sorted_scores\<close> and \<open>filtered_indices\<close> of the source.
\<close>

definition filtered_indices :: "real list \<Rightarrow> real \<Rightarrow> nat list" where
  "filtered_indices scores threshold =
     (let sorted_indices = sorted_reverse (\<lambda>x. scores ! x) [0..<length scores];
          sorted_scores = map (\<lambda>i. scores ! i) sorted_indices
      in map fst (filter (\<lambda>(index, score). score \<ge> threshold)
                         (zip sorted_indices sorted_scores)))"

text \<open>The dictionary from stripped content to candidate: a later candidate replaces an earlier one.\<close>

definition content_to_results_map :: "document list \<Rightarrow> (string \<times> document) list" where
  "content_to_results_map candidates =
     fold (\<lambda>candidate m. dict_set (strip (page_content candidate)) candidate m) candidates []"

definition query_retrieval_reranking ::
  "reranker \<Rightarrow> document list \<Rightarrow> string option \<Rightarrow> real \<Rightarrow> error + document list" where
  "query_retrieval_reranking compute_score candidates query threshold =
     (if candidates = [] then Inr []
      else
        let query_docs_pair = map (\<lambda>candidate. (query, strip (page_content candidate))) candidates
        in case compute_score query_docs_pair of
             Inl e \<Rightarrow> Inl e
           | Inr scores \<Rightarrow>
               (let kept = filtered_indices scores threshold
                in if \<exists>index \<in> set kept. length query_docs_pair \<le> index
                   then Inl IndexError
                   else
                     let rerank_content = map (\<lambda>index. snd (query_docs_pair ! index)) kept;
                         final_results =
                           concat (map (\<lambda>content.
                                          case dict_get (content_to_results_map candidates) content of
                                            Some candidate \<Rightarrow> [candidate]
                                          | None \<Rightarrow> [])
                                       rerank_content)
                     in Inr final_results))"

text \<open>
  \<open>SearchRetrieval\<close>: the client, the embedding models and the reranker it holds.
  \<open>qdrant_retrieval_body\<close> is the body of the \<open>try\<close>; \<open>qdrant_retrieval\<close> adds the
  handler, which turns every exception into the empty list.
\<close>

record search_retrieval =
  qdrant_client :: qdrant_client
  models :: embedding_models
  reranker :: reranker

definition qdrant_retrieval_body ::
  "search_retrieval \<Rightarrow> query_arg \<Rightarrow> int \<Rightarrow> string \<Rightarrow> error + document list" where
  "qdrant_retrieval_body sr query top_k name =
     (let q = unwrap_query query
      in case collection_exists (qdrant_client sr) name of
           Inl e \<Rightarrow> Inl e
         | Inr False \<Rightarrow> Inr []
         | Inr True \<Rightarrow>
             (case hybrid_search (qdrant_client sr) (models sr) q name of
                Inl e \<Rightarrow> Inl e
              | Inr docs \<Rightarrow>
                  (case query_retrieval_reranking (reranker sr) docs q 0.3 of
                     Inl e \<Rightarrow> Inl e
                   | Inr reranked \<Rightarrow>
                       (case query_headers (qdrant_client sr) reranked name of
                          Inl e \<Rightarrow> Inl e
                        | Inr extended_docs \<Rightarrow> Inr (py_take top_k extended_docs)))))"

definition qdrant_retrieval ::
  "search_retrieval \<Rightarrow> query_arg \<Rightarrow> int \<Rightarrow> string \<Rightarrow> error + document list" where
  "qdrant_retrieval sr query top_k name =
     (case qdrant_retrieval_body sr query top_k name of
        Inl e \<Rightarrow> Inr []
      | Inr docs \<Rightarrow> Inr docs)"

section \<open>Retrieval across collections (multi_collection_retriever.py)\<close>

text \<open>
  The dictionaries \<open>get_user_collections\<close> returns: personal collections of the user
  first, then the collections of the organisation. A failing store gives the empty list.
\<close>

record collection_info =
  info_id :: string
  info_collection_name :: string
  info_is_personal :: bool
  info_organization_id :: "string option"
  info_user_id :: string

definition get_user_collections ::
  "relational_db \<Rightarrow> string \<Rightarrow> string option \<Rightarrow> bool \<Rightarrow> bool \<Rightarrow> collection_info list" where
  "get_user_collections rdb uid org include_personal include_organizational =
     (case rdb of
        DbDown \<Rightarrow> []
      | Db rows \<Rightarrow>
          (if include_personal
           then map (\<lambda>c. \<lparr>info_id = collection_id c, info_collection_name = collection_name c,
                          info_is_personal = True, info_organization_id = None,
                          info_user_id = uid\<rparr>)
                    (filter (\<lambda>c. user_id c = uid \<and> is_personal c) rows)
           else [])
          @ (if include_organizational \<and> truthy org
             then map (\<lambda>c. \<lparr>info_id = collection_id c, info_collection_name = collection_name c,
                            info_is_personal = False, info_organization_id = org,
                            info_user_id = user_id c\<rparr>)
                      (filter (\<lambda>c. organization_id c = org \<and> \<not> is_personal c) rows)
             else []))"

text \<open>\<open>asyncio.gather\<close> without \<open>return_exceptions\<close>: all results in task order, or the first exception.\<close>

fun gather :: "(error + 'a) list \<Rightarrow> error + 'a list" where
  "gather [] = Inr []"
| "gather (Inl e # ts) = Inl e"
| "gather (Inr x # ts) = (case gather ts of Inl e \<Rightarrow> Inl e | Inr xs \<Rightarrow> Inr (x # xs))"

definition add_source :: "collection_info \<Rightarrow> document \<Rightarrow> document" where
  "add_source collection_info doc =
     doc\<lparr>metadata := (metadata doc)\<lparr>source_collection := Some (info_collection_name collection_info),
                                     md_is_personal := Some (info_is_personal collection_info)\<rparr>\<rparr>"

text \<open>
  The sort key \<open>getattr(doc.metadata, 'score', 0)\<close>: \<open>doc.metadata\<close> is a dictionary, the
  name \<open>score\<close> is looked up among its attributes, not its keys, and the default is
  returned.
\<close>

definition sort_key_of :: "document \<Rightarrow> int" where
  "sort_key_of doc = 0"

definition retrieve_from_collections ::
  "search_retrieval \<Rightarrow> relational_db \<Rightarrow> string \<Rightarrow> string \<Rightarrow> string option \<Rightarrow> int \<Rightarrow>
   bool \<Rightarrow> bool \<Rightarrow> document list" where
  "retrieve_from_collections sr rdb query uid org top_k include_personal include_organizational =
     (let user_collections =
            get_user_collections rdb uid org include_personal include_organizational;
          collection_names = map info_collection_name user_collections;
          tasks = map (\<lambda>name. qdrant_retrieval sr (QueryString query) top_k name) collection_names
      in case gather tasks of
           Inl e \<Rightarrow> []
         | Inr results_list \<Rightarrow>
             (let all_results =
                    concat (map (\<lambda>(collection_info, results). map (add_source collection_info) results)
                                (zip user_collections results_list))
              in py_take top_k (sorted_reverse sort_key_of all_results)))"

section \<open>The rerank endpoint (rerank_handler.py)\<close>

record candidate =
  content :: string
  doc_id :: string
  cand_organization_id :: "string option"

record rerank_result =
  res_doc_id :: string
  res_score :: real
  res_content :: string
  res_organization_id :: "string option"

text \<open>The sentence-transformer model: \<open>encode\<close> returns the embedding or raises.\<close>

type_synonym sentence_transformer = "string \<Rightarrow> error + real list"

text \<open>
  \<open>request_ranking_triton_kserve\<close> followed by \<open>resp.get('outputs', [{}])[0].get("data")\<close>:
  the response built by the source always carries the embedding.
\<close>

definition request_ranking_triton_kserve ::
  "sentence_transformer \<Rightarrow> string \<Rightarrow> error + real list option" where
  "request_ranking_triton_kserve encode text_input =
     (case encode text_input of Inl e \<Rightarrow> Inl e | Inr embedding \<Rightarrow> Inr (Some embedding))"

definition cosine_similarity :: "real list \<Rightarrow> real list \<Rightarrow> real" where
  "cosine_similarity vec_a vec_b =
     (if vec_a = [] \<or> vec_b = [] then 0
      else
        let dot_product = sum_list (map (\<lambda>(a, b). a * b) (zip vec_a vec_b));
            norm_a = sqrt (sum_list (map (\<lambda>a. a * a) vec_a));
            norm_b = sqrt (sum_list (map (\<lambda>b. b * b) vec_b))
        in if norm_a = 0 \<or> norm_b = 0 then 0 else dot_product / (norm_a * norm_b))"

definition pad_or_truncate :: "real list \<Rightarrow> nat \<Rightarrow> real list" where
  "pad_or_truncate embedding target_size =
     (if length embedding > target_size then take target_size embedding
      else if length embedding < target_size
      then embedding @ replicate (target_size - length embedding) 0
      else embedding)"

definition rerank_embeddings ::
  "real list list \<Rightarrow> real list \<Rightarrow> candidate list \<Rightarrow> (string \<times> real) list" where
  "rerank_embeddings embeddings query_embedding candidates =
     (let scores =
            fold (\<lambda>(candidate, embedding) scores.
                    dict_set (doc_id candidate)
                      (if length embedding > 0 \<and> length query_embedding > 0
                       then cosine_similarity embedding query_embedding else 0)
                      scores)
                 (zip candidates embeddings) []
      in sorted_reverse snd scores)"

text \<open>The first loop of \<open>process_candidates\<close>: it stops at the first call that raises.\<close>

fun candidate_embeddings :: "sentence_transformer \<Rightarrow> candidate list \<Rightarrow> error + real list list" where
  "candidate_embeddings encode [] = Inr []"
| "candidate_embeddings encode (c # cs) =
     (case request_ranking_triton_kserve encode (content c) of
        Inl e \<Rightarrow> Inl e
      | Inr embedding \<Rightarrow>
          (case candidate_embeddings encode cs of
             Inl e \<Rightarrow> Inl e
           | Inr embeddings \<Rightarrow>
               Inr ((case embedding of Some v \<Rightarrow> v | None \<Rightarrow> []) # embeddings)))"

definition map_result :: "candidate list \<Rightarrow> string \<times> real \<Rightarrow> rerank_result list" where
  "map_result candidates item =
     (case find (\<lambda>candidate. doc_id candidate = fst item) candidates of
        None \<Rightarrow> []
      | Some candidate \<Rightarrow>
          [\<lparr>res_doc_id = fst item, res_score = snd item, res_content = content candidate,
            res_organization_id =
              (if truthy (cand_organization_id candidate) then cand_organization_id candidate
               else None)\<rparr>])"

definition process_candidates_body ::
  "sentence_transformer \<Rightarrow> candidate list \<Rightarrow> string option \<Rightarrow> real \<Rightarrow> error + rerank_result list" where
  "process_candidates_body encode candidates query threshold =
     (if \<not> truthy query \<or> candidates = [] then Inr []
      else
        case candidate_embeddings encode candidates of
          Inl e \<Rightarrow> Inl e
        | Inr embeddings \<Rightarrow>
            (case request_ranking_triton_kserve encode (the query) of
               Inl e \<Rightarrow> Inl e
             | Inr query_data \<Rightarrow>
                 (let valid_embeddings = filter (\<lambda>e. length e > 0) embeddings;
                      target_size = foldr max (map length valid_embeddings) 0
                  in if target_size = 0 then Inr []
                     else
                       case query_data of
                         None \<Rightarrow> Inl TypeError
                       | Some query_embedding \<Rightarrow>
                           (let padded = map (\<lambda>embedding. pad_or_truncate embedding target_size)
                                             embeddings;
                                padded_query = pad_or_truncate query_embedding target_size;
                                ranked_results = rerank_embeddings padded padded_query candidates;
                                mapped_results = concat (map (map_result candidates) ranked_results)
                            in Inr (filter (\<lambda>item. res_score item \<ge> threshold) mapped_results)))))"

text \<open>The handler of \<open>process_candidates\<close> returns the empty list for every exception.\<close>

definition process_candidates ::
  "sentence_transformer \<Rightarrow> candidate list \<Rightarrow> string option \<Rightarrow> real \<Rightarrow> error + rerank_result list" where
  "process_candidates encode candidates query threshold =
     (case process_candidates_body encode candidates query threshold of
        Inl e \<Rightarrow> Inr []
      | Inr results \<Rightarrow> Inr results)"

text \<open>
  What one collection contributes to the merged pool: its tagged documents, or nothing
  when the body of its \<open>qdrant_retrieval\<close> raises.
\<close>

definition collection_results ::
  "search_retrieval \<Rightarrow> string \<Rightarrow> int \<Rightarrow> collection_info \<Rightarrow> document list" where
  "collection_results sr query top_k collection_info =
     (case qdrant_retrieval_body sr (QueryString query) top_k
             (info_collection_name collection_info) of
        Inl e \<Rightarrow> []
      | Inr docs \<Rightarrow> map (add_source collection_info) docs)"

text \<open>The number of chunks of a list that carry a given \<open>headers\<close> value.\<close>

definition headers_count :: "string \<Rightarrow> document list \<Rightarrow> nat" where
  "headers_count h docs = length (filter (\<lambda>doc. headers (metadata doc) = Some h) docs)"

text \<open>Every entry of the dictionary sits under the \<open>headers\<close> value of its own document.\<close>

definition keyed_by_headers :: "(string \<times> section_entry) list \<Rightarrow> bool" where
  "keyed_by_headers processed =
     (distinct (map fst processed)
      \<and> list_all (\<lambda>item. headers (metadata (document (snd item))) = Some (fst item)) processed)"

section \<open>Example stores\<close>

text \<open>
  Organisation \<open>O\<close> has the member \<open>U\<close> with role id 90 (USER) and the member \<open>M\<close> with
  role id 10 (ADMIN); \<open>B\<close> is not in the identity store at all.
\<close>

definition example_store :: identity_store where
  "example_store =
     \<lparr>user_query = (\<lambda>u. if u = ''U'' \<or> u = ''M''
                          then Inr [\<lparr>Id = u, DefaultOrganizationId = Some ''O''\<rparr>] else Inr []),
      role_query = (\<lambda>u. if u = ''U''
                          then Inr [\<lparr>OrganizationId = ''O'', organization_name = ''Org'',
                                     organization_code = ''ORG'', role_id = 90\<rparr>]
                          else if u = ''M''
                          then Inr [\<lparr>OrganizationId = ''O'', organization_name = ''Org'',
                                     organization_code = ''ORG'', role_id = 10\<rparr>]
                          else Inr []),
      direct_role_query = (\<lambda>u oid. if oid = ''O'' \<and> u = ''U'' then Inr [90]
                                    else if oid = ''O'' \<and> u = ''M'' then Inr [10] else Inr [])\<rparr>"

text \<open>
  The personal collection \<open>alpha\<close> of user \<open>A\<close>, and the collection \<open>docs\<close> of
  organisation \<open>O\<close>, created by \<open>A\<close>.
\<close>

definition alpha_collection :: collection where
  "alpha_collection = \<lparr>collection_id = ''1'', user_id = ''A'', collection_name = ''alpha'',
            organization_id = None, is_personal = True\<rparr>"

definition docs_collection :: collection where
  "docs_collection = \<lparr>collection_id = ''2'', user_id = ''A'', collection_name = ''docs'',
           organization_id = Some ''O'', is_personal = False\<rparr>"

definition example_db :: relational_db where
  "example_db = Db [alpha_collection, docs_collection]"

text \<open>
  A service whose caches hold roles for \<open>U\<close> and \<open>M\<close> in \<open>O\<close>, a role for \<open>U\<close> in \<open>P\<close>,
  the user entries of \<open>U\<close> and \<open>M\<close> and the organisation entries of \<open>O\<close> and \<open>P\<close>.
\<close>

definition example_service :: role_service where
  "example_service =
     \<lparr>role_cache = [(''U'', ''O'') \<mapsto> (Some ''USER'', 0), (''M'', ''O'') \<mapsto> (Some ''ADMIN'', 0),
                     (''U'', ''P'') \<mapsto> (Some ''USER'', 0)],
      user_cache = [''U'' \<mapsto> (ExistsOnly True, 0), ''M'' \<mapsto> (ExistsOnly True, 0)],
      org_cache = [''O'' \<mapsto> (True, 0), ''P'' \<mapsto> (True, 0)],
      issued = []\<rparr>"

text \<open>An identity store that is unreachable: every statement raises.\<close>

definition failing_store :: identity_store where
  "failing_store =
     \<lparr>user_query = (\<lambda>u. Inl StoreUnavailable),
      role_query = (\<lambda>u. Inl StoreUnavailable),
      direct_role_query = (\<lambda>u oid. Inl StoreUnavailable)\<rparr>"

text \<open>
  A vector index holding the collection \<open>alpha\<close> with two sections of \<open>a.pdf\<close>; the
  collection \<open>docs\<close> exists, but every query on it raises (an index outage); no other
  collection exists.
\<close>

definition md :: "string \<Rightarrow> string \<Rightarrow> string \<Rightarrow> metadata" where
  "md dn h did = \<lparr>document_name = Some dn, headers = Some h, document_id = Some did,
                  source_collection = None, md_is_personal = None\<rparr>"

definition example_client :: qdrant_client where
  "example_client =
     \<lparr>collection_exists = (\<lambda>name. Inr (name = ''alpha'' \<or> name = ''docs'')),
      get_collection = (\<lambda>name. if name = ''alpha'' then Inr 3 else Inl IndexUnavailable),
      query_points_hybrid =
        (\<lambda>name d s l.
           if name = ''alpha''
           then Inr [\<lparr>payload_page_content = ''intro'', payload_metadata = md ''a.pdf'' ''H1'' ''7''\<rparr>,
                     \<lparr>payload_page_content = ''terms'', payload_metadata = md ''a.pdf'' ''H2'' ''7''\<rparr>]
           else Inl IndexUnavailable),
      query_points_section =
        (\<lambda>name dn h limit.
           if name = ''alpha'' \<and> dn = ''a.pdf'' \<and> h = ''H1''
           then Inr [\<lparr>payload_page_content = ''intro'', payload_metadata = md ''a.pdf'' ''H1'' ''7''\<rparr>,
                     \<lparr>payload_page_content = '' more'', payload_metadata = md ''a.pdf'' ''H1'' ''7''\<rparr>]
           else if name = ''alpha'' \<and> dn = ''a.pdf'' \<and> h = ''H2''
           then Inr [\<lparr>payload_page_content = ''terms'', payload_metadata = md ''a.pdf'' ''H2'' ''7''\<rparr>]
           else Inl IndexUnavailable)\<rparr>"

definition example_models :: embedding_models where
  "example_models =
     \<lparr>text_embedding_model = (\<lambda>q. Inr [1]),
      bm25_embedding_model = (\<lambda>q. Inr [(0, 1)]),
      late_interaction_text_embedding_model = (\<lambda>q. Inr [[1]])\<rparr>"

text \<open>A reranker that gives every pair the score 0.5.\<close>

definition example_reranker :: reranker where
  "example_reranker pairs = Inr (map (\<lambda>p. 0.5) pairs)"

definition example_retrieval :: search_retrieval where
  "example_retrieval =
     \<lparr>qdrant_client = example_client, models = example_models, reranker = example_reranker\<rparr>"

definition alpha_info :: collection_info where
  "alpha_info = \<lparr>info_id = ''1'', info_collection_name = ''alpha'', info_is_personal = True,
                 info_organization_id = None, info_user_id = ''A''\<rparr>"

definition docs_info :: collection_info where
  "docs_info = \<lparr>info_id = ''2'', info_collection_name = ''docs'', info_is_personal = False,
                info_organization_id = Some ''O'', info_user_id = ''A''\<rparr>"

definition section_H1 :: document where
  "section_H1 = \<lparr>page_content = ''intro more'', metadata = md ''a.pdf'' ''H1'' ''7''\<rparr>"

definition section_H2 :: document where
  "section_H2 = \<lparr>page_content = ''terms'', metadata = md ''a.pdf'' ''H2'' ''7''\<rparr>"

definition hit1 :: document where
  "hit1 = \<lparr>page_content = ''intro'', metadata = md ''a.pdf'' ''H1'' ''7''\<rparr>"

definition hit2 :: document where
  "hit2 = \<lparr>page_content = ''terms'', metadata = md ''a.pdf'' ''H2'' ''7''\<rparr>"

text \<open>
  Two retrieved chunks with the same stripped text and different metadata, and two
  chunks of different documents of one collection \<open>kb\<close> whose sections have the same
  headers.
\<close>

definition dup_a :: document where
  "dup_a = \<lparr>page_content = ''same text'', metadata = md ''a.pdf'' ''H1'' ''1''\<rparr>"

definition dup_b :: document where
  "dup_b = \<lparr>page_content = ''same text '', metadata = md ''b.pdf'' ''H9'' ''2''\<rparr>"

definition chunk_policy :: document where
  "chunk_policy = \<lparr>page_content = ''within 30 days'',
                    metadata = md ''policy.pdf'' ''Header 1: Returns'' ''1''\<rparr>"

definition chunk_faq :: document where
  "chunk_faq = \<lparr>page_content = ''how to return'',
                 metadata = md ''faq.pdf'' ''Header 1: Returns'' ''2''\<rparr>"

definition kb_client :: qdrant_client where
  "kb_client =
     \<lparr>collection_exists = (\<lambda>name. Inr (name = ''kb'')),
      get_collection = (\<lambda>name. if name = ''kb'' then Inr 2 else Inl IndexUnavailable),
      query_points_hybrid =
        (\<lambda>name d s l.
           if name = ''kb''
           then Inr [\<lparr>payload_page_content = page_content chunk_policy,
                      payload_metadata = metadata chunk_policy\<rparr>,
                     \<lparr>payload_page_content = page_content chunk_faq,
                      payload_metadata = metadata chunk_faq\<rparr>]
           else Inl IndexUnavailable),
      query_points_section =
        (\<lambda>name dn h limit.
           if name = ''kb'' \<and> dn = ''policy.pdf'' \<and> h = ''Header 1: Returns''
           then Inr [\<lparr>payload_page_content = page_content chunk_policy,
                      payload_metadata = metadata chunk_policy\<rparr>]
           else if name = ''kb'' \<and> dn = ''faq.pdf'' \<and> h = ''Header 1: Returns''
           then Inr [\<lparr>payload_page_content = page_content chunk_faq,
                      payload_metadata = metadata chunk_faq\<rparr>]
           else Inr [])\<rparr>"

text \<open>
  A sentence transformer that embeds the texts \<open>good\<close> and \<open>q\<close> and raises on every
  other text, and two candidates of the rerank endpoint.
\<close>

definition example_encode :: sentence_transformer where
  "example_encode text_input =
     (if text_input = ''good'' \<or> text_input = ''q'' then Inr [1] else Inl InferenceFailure)"

definition cand_good :: candidate where
  "cand_good = \<lparr>content = ''good'', doc_id = ''1'', cand_organization_id = None\<rparr>"

definition cand_bad :: candidate where
  "cand_bad = \<lparr>content = ''bad'', doc_id = ''2'', cand_organization_id = None\<rparr>"

text \<open>
  A store in which the name \<open>docs\<close> is carried by two records: the collection of
  organisation \<open>O\<close>, created by \<open>X\<close>, and, after it, the personal collection of \<open>A\<close>.
  \<open>create_collection\<close> looks for an existing record of the same name and the same kind
  only, so it creates both.
\<close>

definition org_docs :: collection where
  "org_docs = \<lparr>collection_id = ''3'', user_id = ''X'', collection_name = ''docs'',
               organization_id = Some ''O'', is_personal = False\<rparr>"

definition personal_docs :: collection where
  "personal_docs = \<lparr>collection_id = ''4'', user_id = ''A'', collection_name = ''docs'',
                    organization_id = None, is_personal = True\<rparr>"

definition shadow_db :: relational_db where
  "shadow_db = Db [org_docs, personal_docs]"

text \<open>
  A sentence transformer that returns the empty embedding for every text but \<open>good\<close>
  and \<open>q\<close>, instead of raising.
\<close>

definition empty_encode :: sentence_transformer where
  "empty_encode text_input =
     (if text_input = ''good'' \<or> text_input = ''q'' then Inr [1] else Inr [])"

section \<open>Facts about the role lookup\<close>

lemma example_role_U:
  "fst (get_user_role example_store now ''U'' ''O'' UserRoleService) = Some ''USER''"
  by (simp add: get_user_role_def get_user_info_with_roles_def UserRoleService_def
      example_store_def execute_def role_row_step_def role_of_id_def Let_def)

lemma example_role_M:
  "fst (get_user_role example_store now ''M'' ''O'' UserRoleService) = Some ''ADMIN''"
  by (simp add: get_user_role_def get_user_info_with_roles_def UserRoleService_def
      example_store_def execute_def role_row_step_def role_of_id_def Let_def)

lemma example_role_B:
  "fst (get_user_role example_store now ''B'' ''O'' UserRoleService) = None"
  by (simp add: get_user_role_def get_user_info_with_roles_def UserRoleService_def
      example_store_def execute_def Let_def)

lemma example_first_alpha: "query_first example_db ''alpha'' = Inr (Some alpha_collection)"
  by (simp add: query_first_def example_db_def alpha_collection_def docs_collection_def)

lemma example_first_docs: "query_first example_db ''docs'' = Inr (Some docs_collection)"
  by (simp add: query_first_def example_db_def alpha_collection_def docs_collection_def)

lemma example_first_beta: "query_first example_db ''beta'' = Inr None"
  by (simp add: query_first_def example_db_def alpha_collection_def docs_collection_def)

section \<open>Permissions on organizational collections\<close>

text \<open>
  C1 (as stated, refuted). The claim makes read access on an organizational collection
  depend on the caller's membership and role. The code never consults the identity store
  for a read: \<open>B\<close>, who holds no role in \<open>O\<close>, reads \<open>docs\<close> by passing
  \<open>organization_id = O\<close>, while the member \<open>U\<close> (role USER) is refused when no
  organisation id is passed, and so is the creator \<open>A\<close> for a delete.
\<close>

theorem check_collection_permission_read_counterexample:
  "fst (get_user_role example_store 0 ''B'' ''O'' UserRoleService) = None
   \<and> check_collection_permission example_db example_store 0 ''B'' ''docs'' (Some ''O'') False ''read''
   \<and> fst (get_user_role example_store 0 ''U'' ''O'' UserRoleService) = Some ''USER''
   \<and> \<not> check_collection_permission example_db example_store 0 ''U'' ''docs'' None False ''read''
   \<and> \<not> check_collection_permission example_db example_store 0 ''A'' ''docs'' None False ''delete''"
  by (simp add: example_role_B example_role_U check_collection_permission_def example_first_docs
      docs_collection_def)

text \<open>
  C1 (amended). For the record found under the name, when it is not personal: the call
  succeeds only if the record has a non-empty organisation id equal to the
  \<open>organization_id\<close> the caller passes; under that gate \<open>read\<close> is granted without any
  role lookup, and every other permission is granted exactly to the record's creator
  and to a caller for whom a fresh role lookup in that organisation yields ADMIN.
\<close>

theorem check_collection_permission_organizational:
  assumes "query_first rdb name = Inr (Some c)" and "\<not> is_personal c"
  shows "check_collection_permission rdb db now uid name org p perm =
           (truthy (organization_id c) \<and> organization_id c = org \<and>
            (perm = ''read'' \<or> user_id c = uid \<or>
             fst (get_user_role db now uid (the org) UserRoleService) = Some ''ADMIN''))"
  using assms
  by (auto simp add: check_collection_permission_def is_admin_def split: prod.splits)

theorem check_collection_permission_organizational_witness:
  "check_collection_permission example_db example_store 0 ''U'' ''docs'' (Some ''O'') False ''read''
   \<and> \<not> check_collection_permission example_db example_store 0 ''U'' ''docs'' (Some ''O'') False ''delete''
   \<and> check_collection_permission example_db example_store 0 ''M'' ''docs'' (Some ''O'') False ''delete''
   \<and> check_collection_permission example_db example_store 0 ''A'' ''docs'' (Some ''O'') False ''write''"
  using check_collection_permission_organizational
          [OF example_first_docs, where db = example_store and now = 0 and p = False]
  by (simp add: example_role_U example_role_M docs_collection_def)

section \<open>Personal collections\<close>

text \<open>
  C6 (the code at the failing input). The permission check looks the collection up by
  name alone and never reads its \<open>is_personal\<close> argument. In \<open>shadow_db\<close> the personal
  collection \<open>docs\<close> of \<open>A\<close> stands behind the organisational record of the same name,
  which decides: \<open>B\<close>, who is not the owner and holds no role in \<open>O\<close>, is granted read
  by passing the organisation id \<open>O\<close>, and the owner \<open>A\<close> is refused.
\<close>

theorem check_collection_access_shadowed_personal:
  "shadow_db = Db [org_docs, personal_docs]
   \<and> is_personal personal_docs \<and> user_id personal_docs = ''A''
   \<and> collection_name personal_docs = ''docs''
   \<and> fst (get_user_role example_store 0 ''B'' ''O'' UserRoleService) = None
   \<and> check_collection_access shadow_db example_store 0 ''B'' ''docs'' (Some ''O'') ''read''
   \<and> \<not> check_collection_access shadow_db example_store 0 ''A'' ''docs'' None ''read''"
  by (simp add: example_role_B check_collection_access_def check_collection_permission_def
      query_first_def shadow_db_def org_docs_def personal_docs_def)

text \<open>
  When the record found under the name is personal, \<open>check_collection_access\<close> is
  true exactly for the record's owner, whatever permission is asked, whatever
  organisation id is passed and whatever the identity store holds; when no record has
  the name, or the relational store fails, it is false.
\<close>

theorem check_collection_access_personal:
  "(query_first rdb name = Inr (Some c) \<and> is_personal c \<longrightarrow>
      check_collection_access rdb db now uid name org perm = (user_id c = uid))
   \<and> (query_first rdb name = Inr None \<longrightarrow> \<not> check_collection_access rdb db now uid name org perm)
   \<and> (query_first rdb name = Inl e \<longrightarrow> \<not> check_collection_access rdb db now uid name org perm)"
  by (simp add: check_collection_access_def check_collection_permission_def)

theorem check_collection_access_personal_witness:
  "\<not> check_collection_access example_db example_store 0 ''B'' ''alpha'' None ''read''
   \<and> check_collection_access example_db example_store 0 ''A'' ''alpha'' (Some ''O'') ''delete''
   \<and> \<not> check_collection_access example_db example_store 0 ''M'' ''alpha'' (Some ''O'') ''read''
   \<and> \<not> check_collection_access example_db example_store 0 ''A'' ''beta'' None ''read''
   \<and> \<not> check_collection_access DbDown example_store 0 ''A'' ''alpha'' None ''read''"
proof -
  have down: "query_first DbDown ''alpha'' = Inl StoreUnavailable"
    by (simp add: query_first_def)
  show ?thesis
    using check_collection_access_personal
            [where rdb = example_db and name = "''alpha''" and db = example_store and now = 0
               and uid = "''B''" and org = "None" and perm = "''read''" and e = StoreUnavailable
               and c = alpha_collection]
          check_collection_access_personal
            [where rdb = example_db and name = "''alpha''" and db = example_store and now = 0
               and uid = "''A''" and org = "Some ''O''" and perm = "''delete''" and e = StoreUnavailable
               and c = alpha_collection]
          check_collection_access_personal
            [where rdb = example_db and name = "''alpha''" and db = example_store and now = 0
               and uid = "''M''" and org = "Some ''O''" and perm = "''read''" and e = StoreUnavailable
               and c = alpha_collection]
          check_collection_access_personal
            [where rdb = example_db and name = "''beta''" and db = example_store and now = 0
               and uid = "''A''" and org = "None" and perm = "''read''" and e = StoreUnavailable]
          check_collection_access_personal
            [where rdb = DbDown and name = "''alpha''" and db = example_store and now = 0
               and uid = "''A''" and org = "None" and perm = "''read''" and e = StoreUnavailable]
    by (simp add: example_first_alpha example_first_beta down alpha_collection_def)
qed

section \<open>Selective invalidation\<close>

text \<open>
  C9. Ids are non-empty strings; an omitted argument is \<open>None\<close> (the source tests the
  arguments for truthiness, so an empty string counts as omitted too). With both ids
  given, exactly the role entry \<open>(u, o)\<close> goes; with only the user given, the user entry
  of \<open>u\<close> and the role entries whose first component is \<open>u\<close> go; with only the
  organisation given, the organisation entry of \<open>o\<close> and the role entries whose second
  component is \<open>o\<close> go; with neither, the three caches are emptied. Everything else is
  unchanged.
\<close>

theorem clear_cache_selective:
  "(u \<noteq> [] \<and> oid \<noteq> [] \<longrightarrow>
      (\<forall>k. role_cache (clear_cache (Some u) (Some oid) s) k
             = (if k = (u, oid) then None else role_cache s k))
      \<and> user_cache (clear_cache (Some u) (Some oid) s) = user_cache s
      \<and> org_cache (clear_cache (Some u) (Some oid) s) = org_cache s)
   \<and> (u \<noteq> [] \<and> \<not> truthy org \<longrightarrow>
      (\<forall>k. role_cache (clear_cache (Some u) org s) k
             = (if fst k = u then None else role_cache s k))
      \<and> (\<forall>x. user_cache (clear_cache (Some u) org s) x
             = (if x = u then None else user_cache s x))
      \<and> org_cache (clear_cache (Some u) org s) = org_cache s)
   \<and> (oid \<noteq> [] \<and> \<not> truthy usr \<longrightarrow>
      (\<forall>k. role_cache (clear_cache usr (Some oid) s) k
             = (if snd k = oid then None else role_cache s k))
      \<and> (\<forall>x. org_cache (clear_cache usr (Some oid) s) x
             = (if x = oid then None else org_cache s x))
      \<and> user_cache (clear_cache usr (Some oid) s) = user_cache s)
   \<and> (\<not> truthy usr \<and> \<not> truthy org \<longrightarrow>
      role_cache (clear_cache usr org s) = Map.empty
      \<and> user_cache (clear_cache usr org s) = Map.empty
      \<and> org_cache (clear_cache usr org s) = Map.empty)"
  by (simp add: clear_cache_def)

theorem clear_cache_selective_witness:
  "role_cache (clear_cache (Some ''U'') (Some ''O'') example_service) (''U'', ''O'') = None
   \<and> role_cache (clear_cache (Some ''U'') (Some ''O'') example_service) (''M'', ''O'')
       = Some (Some ''ADMIN'', 0)
   \<and> role_cache (clear_cache (Some ''U'') (Some ''O'') example_service) (''U'', ''P'')
       = Some (Some ''USER'', 0)
   \<and> user_cache (clear_cache (Some ''U'') (Some ''O'') example_service) ''U''
       = Some (ExistsOnly True, 0)
   \<and> role_cache (clear_cache (Some ''U'') None example_service) (''U'', ''P'') = None
   \<and> role_cache (clear_cache (Some ''U'') None example_service) (''M'', ''O'')
       = Some (Some ''ADMIN'', 0)
   \<and> user_cache (clear_cache (Some ''U'') None example_service) ''U'' = None
   \<and> user_cache (clear_cache (Some ''U'') None example_service) ''M'' = Some (ExistsOnly True, 0)
   \<and> role_cache (clear_cache None (Some ''O'') example_service) (''M'', ''O'') = None
   \<and> role_cache (clear_cache None (Some ''O'') example_service) (''U'', ''P'')
       = Some (Some ''USER'', 0)
   \<and> org_cache (clear_cache None (Some ''O'') example_service) ''O'' = None
   \<and> org_cache (clear_cache None (Some ''O'') example_service) ''P'' = Some (True, 0)
   \<and> role_cache (clear_cache None None example_service) = Map.empty
   \<and> user_cache (clear_cache None None example_service) = Map.empty
   \<and> org_cache (clear_cache None None example_service) = Map.empty"
  using clear_cache_selective
          [where u = "''U''" and oid = "''O''" and org = None and usr = None
             and s = example_service]
  by (simp add: example_service_def)

section \<open>The role cache over time\<close>

lemma dict_get_dict_set:
  "dict_get (dict_set k v kvs) k' = (if k = k' then Some v else dict_get kvs k')"
  by (induction kvs) auto

lemma role_inv_step:
  "role_inv now uid oid s0 acc \<Longrightarrow> role_inv now uid oid s0 (role_row_step now uid row acc)"
  by (auto simp: role_inv_def role_row_step_def Let_def dict_get_dict_set split: prod.splits option.splits)

lemma role_inv_fold:
  "role_inv now uid oid s0 acc \<Longrightarrow> role_inv now uid oid s0 (fold (role_row_step now uid) rows acc)"
  by (induction rows arbitrary: acc) (simp_all add: role_inv_step)

lemma fold_rows_inv:
  assumes "fold (role_row_step now uid) rows ([], [], s) = (rs, orgs, s3)"
  shows "issued s3 = issued s" and "user_cache s3 = user_cache s"
    and "dict_get rs oid = None \<Longrightarrow> role_cache s3 (uid, oid) = role_cache s (uid, oid)"
    and "dict_get rs oid = Some r \<Longrightarrow> role_cache s3 (uid, oid) = Some (Some r, now)"
proof -
  have "role_inv now uid oid s ([], [], s)" for oid
    by (simp add: role_inv_def)
  from role_inv_fold[OF this, of _ rows] assms
  have inv: "role_inv now uid oid s (rs, orgs, s3)" for oid
    by simp
  show "issued s3 = issued s" "user_cache s3 = user_cache s"
    using inv[of oid] by (simp_all add: role_inv_def)
  show "dict_get rs oid = None \<Longrightarrow> role_cache s3 (uid, oid) = role_cache s (uid, oid)"
    using inv[of oid] by (simp add: role_inv_def)
  show "dict_get rs oid = Some r \<Longrightarrow> role_cache s3 (uid, oid) = Some (Some r, now)"
    using inv[of oid] by (simp add: role_inv_def)
qed

text \<open>The outcome of a lookup that finds no valid entry, by what the store answers.\<close>

lemma get_user_role_missing_user:
  assumes "no_valid_entry now uid oid s" and "user_query db uid = Inr []"
    and "direct_role_query db uid oid = Inr ds"
  shows "get_user_role db now uid oid s =
           (let role = (case ds of [] \<Rightarrow> None | r # _ \<Rightarrow> Some (role_of_id r));
                s2 = execute (DirectRoleQuery uid oid) (execute (UserQuery uid) s)
            in (role, s2\<lparr>role_cache := (role_cache s2)((uid, oid) \<mapsto> (role, now))\<rparr>))"
  using assms
  by (auto simp: no_valid_entry_def get_user_role_def get_user_info_with_roles_def Let_def
      split: option.splits list.splits)

lemma get_user_role_known_user:
  assumes "no_valid_entry now uid oid s" and "user_query db uid = Inr (u # us)"
    and "role_query db uid = Inr rows"
    and "fold (role_row_step now uid) rows ([], [], execute (RoleQuery uid) (execute (UserQuery uid) s))
           = (rs, orgs, s3)"
  shows "get_user_role db now uid oid s =
           (dict_get rs oid,
            s3\<lparr>user_cache := (user_cache s3)
                  (uid \<mapsto> (UserInfo (Id u) (DefaultOrganizationId u) orgs rs, now))\<rparr>)"
  using assms
  by (auto simp: no_valid_entry_def get_user_role_def get_user_info_with_roles_def Let_def
      split: option.splits)

lemma no_valid_entry_queries:
  assumes "no_valid_entry now uid oid s"
  shows "\<exists>qs. issued (snd (get_user_role db now uid oid s)) = issued s @ UserQuery uid # qs"
proof (cases "user_query db uid")
  case (Inl e)
  with assms show ?thesis
    by (auto simp: no_valid_entry_def get_user_role_def get_user_info_with_roles_def Let_def
        execute_def split: option.splits sum.splits list.splits)
next
  case (Inr us)
  show ?thesis
  proof (cases us)
    case Nil
    with Inr assms show ?thesis
      by (auto simp: no_valid_entry_def get_user_role_def get_user_info_with_roles_def Let_def
          execute_def split: option.splits sum.splits list.splits)
  next
    case (Cons u rest)
    show ?thesis
    proof (cases "role_query db uid")
      case (Inl e)
      with Inr Cons assms show ?thesis
        by (auto simp: no_valid_entry_def get_user_role_def get_user_info_with_roles_def Let_def
            execute_def split: option.splits sum.splits list.splits)
    next
      case rq: (Inr rows)
      obtain rs orgs s3 where f: "fold (role_row_step now uid) rows
          ([], [], execute (RoleQuery uid) (execute (UserQuery uid) s)) = (rs, orgs, s3)"
        using prod_cases3 by blast
      from fold_rows_inv(1)[OF f] have "issued s3 = issued s @ [UserQuery uid, RoleQuery uid]"
        by (simp add: execute_def)
      with get_user_role_known_user[OF assms _ rq f, of u rest] Inr Cons show ?thesis
        by simp
    qed
  qed
qed

text \<open>
  C5 (as stated, refuted). Two calls within the TTL do not send exactly one statement
  to the identity store. For \<open>B\<close>, who has no user row, the first call sends the user
  query and then the direct role query. When every statement raises, nothing is cached,
  and the second call, ten seconds later, sends both statements again.
\<close>

theorem get_user_role_twice_counterexample:
  "issued (snd (get_user_role example_store 10 ''B'' ''O''
                 (snd (get_user_role example_store 0 ''B'' ''O'' UserRoleService))))
     = [UserQuery ''B'', DirectRoleQuery ''B'' ''O'']
   \<and> issued (snd (get_user_role failing_store 10 ''U'' ''O''
                 (snd (get_user_role failing_store 0 ''U'' ''O'' UserRoleService))))
     = [UserQuery ''U'', DirectRoleQuery ''U'' ''O'', UserQuery ''U'', DirectRoleQuery ''U'' ''O'']"
  by (simp add: get_user_role_def get_user_info_with_roles_def UserRoleService_def
      example_store_def failing_store_def execute_def Let_def is_cache_valid_def cache_ttl_def)

text \<open>
  C5 (amended). Let the service hold no valid entry for the user and the pair at the
  clock reading \<open>ta\<close> of the first call, and let the identity store answer the statements of the first call without
  raising. Then the first \<open>get_user_role\<close> sends two statements (the user query, then
  the membership join or the direct role query); a second call at a time \<open>tb\<close> with
  \<open>ta \<le> tb < ta + 300\<close> sends nothing, whatever the store then holds, and returns the same
  role and leaves the service as it was; and a call at any time \<open>tc \<ge> ta + 300\<close> sends
  the user query again: entries that are 300 seconds old count as absent.
\<close>

theorem get_user_role_cache:
  assumes fresh: "no_valid_entry ta uid oid s0" and ans: "store_answers db uid oid"
    and call: "get_user_role db ta uid oid s0 = (r1, s1)"
  shows "(issued s1 = issued s0 @ [UserQuery uid, RoleQuery uid]
          \<or> issued s1 = issued s0 @ [UserQuery uid, DirectRoleQuery uid oid])
       \<and> (ta \<le> tb \<and> tb < ta + 300 \<longrightarrow> get_user_role db' tb uid oid s1 = (r1, s1))
       \<and> (ta + 300 \<le> tc \<longrightarrow>
            (\<exists>qs. issued (snd (get_user_role db' tc uid oid s1)) = issued s1 @ UserQuery uid # qs))"
proof (cases "user_query db uid")
  case (Inl e)
  with ans show ?thesis by (simp add: store_answers_def)
next
  case (Inr us)
  show ?thesis
  proof (cases us)
    case Nil
    with Inr ans obtain ds where ds: "direct_role_query db uid oid = Inr ds"
      by (auto simp: store_answers_def split: sum.splits)
    from Nil Inr have uq: "user_query db uid = Inr []" by simp
    note first = get_user_role_missing_user[OF fresh uq ds]
    from first call have s1: "role_cache s1 (uid, oid) = Some (r1, ta)"
      and uc: "user_cache s1 = user_cache s0"
      and iss: "issued s1 = issued s0 @ [UserQuery uid, DirectRoleQuery uid oid]"
      by (auto simp: Let_def execute_def)
    have second: "get_user_role db' tb uid oid s1 = (r1, s1)" if "tb < ta + 300"
      using that s1 by (simp add: get_user_role_def is_cache_valid_def cache_ttl_def)
    have "no_valid_entry tc uid oid s1" if "ta + 300 \<le> tc"
      using that s1 uc fresh
      by (auto simp: no_valid_entry_def is_cache_valid_def cache_ttl_def split: option.splits)
    with iss second no_valid_entry_queries show ?thesis by blast
  next
    case (Cons u rest)
    with Inr ans obtain rows where rq: "role_query db uid = Inr rows"
      by (auto simp: store_answers_def split: sum.splits)
    from Cons Inr have uq: "user_query db uid = Inr (u # rest)" by simp
    obtain rs orgs s3 where f: "fold (role_row_step ta uid) rows
        ([], [], execute (RoleQuery uid) (execute (UserQuery uid) s0)) = (rs, orgs, s3)"
      using prod_cases3 by blast
    note inv = fold_rows_inv[OF f]
    from get_user_role_known_user[OF fresh uq rq f] call
    have r1: "r1 = dict_get rs oid"
      and s1: "s1 = s3\<lparr>user_cache := (user_cache s3)
                  (uid \<mapsto> (UserInfo (Id u) (DefaultOrganizationId u) orgs rs, ta))\<rparr>"
      by simp_all
    have iss: "issued s1 = issued s0 @ [UserQuery uid, RoleQuery uid]"
      using inv(1) s1 by (simp add: execute_def)
    have second: "get_user_role db' tb uid oid s1 = (r1, s1)" if "ta \<le> tb" "tb < ta + 300"
    proof (cases "dict_get rs oid")
      case None
      from inv(3)[OF None] fresh that
      have "case role_cache s1 (uid, oid) of None \<Rightarrow> True
            | Some (r, ts) \<Rightarrow> \<not> is_cache_valid tb ts"
        by (auto simp: s1 execute_def no_valid_entry_def is_cache_valid_def split: option.splits)
      then show ?thesis using that None r1
        by (auto simp: get_user_role_def get_user_info_with_roles_def s1 is_cache_valid_def
            cache_ttl_def split: option.splits)
    next
      case (Some r)
      from inv(4)[OF Some] show ?thesis using that Some r1
        by (simp add: get_user_role_def s1 is_cache_valid_def cache_ttl_def)
    qed
    have "no_valid_entry tc uid oid s1" if "ta + 300 \<le> tc"
    proof (cases "dict_get rs oid")
      case None
      from inv(3)[OF None] fresh that show ?thesis
        by (auto simp: s1 execute_def no_valid_entry_def is_cache_valid_def cache_ttl_def
            split: option.splits)
    next
      case (Some r)
      from inv(4)[OF Some] that show ?thesis
        by (auto simp: s1 no_valid_entry_def is_cache_valid_def cache_ttl_def)
    qed
    with iss second no_valid_entry_queries show ?thesis by blast
  qed
qed

theorem get_user_role_cache_witness:
  "issued (snd (get_user_role example_store 0 ''U'' ''O'' UserRoleService))
     = [UserQuery ''U'', RoleQuery ''U'']
   \<and> get_user_role failing_store 299 ''U'' ''O''
         (snd (get_user_role example_store 0 ''U'' ''O'' UserRoleService))
       = (Some ''USER'', snd (get_user_role example_store 0 ''U'' ''O'' UserRoleService))
   \<and> (\<exists>qs. issued (snd (get_user_role failing_store 300 ''U'' ''O''
                          (snd (get_user_role example_store 0 ''U'' ''O'' UserRoleService))))
             = [UserQuery ''U'', RoleQuery ''U''] @ UserQuery ''U'' # qs)"
proof -
  have fresh: "no_valid_entry 0 ''U'' ''O'' UserRoleService"
    by (simp add: no_valid_entry_def UserRoleService_def)
  have ans: "store_answers example_store ''U'' ''O''"
    by (simp add: store_answers_def example_store_def)
  have iss: "issued (snd (get_user_role example_store 0 ''U'' ''O'' UserRoleService))
               = [UserQuery ''U'', RoleQuery ''U'']"
    by (simp add: get_user_role_def get_user_info_with_roles_def UserRoleService_def
        example_store_def execute_def role_row_step_def role_of_id_def Let_def)
  show ?thesis
    using get_user_role_cache [OF fresh ans surjective_pairing,
            where tb = 299 and tc = 300 and db' = failing_store]
    by (simp add: iss example_role_U)
qed

section \<open>Retrieval from a collection that does not exist\<close>

text \<open>
  C4. \<open>qdrant_retrieval\<close> never raises: it returns a list for every input. When the
  index reports that the collection does not exist, the list is empty, although
  \<open>hybrid_search\<close> on its own raises for such a collection.
\<close>

theorem qdrant_retrieval_missing_collection:
  "(\<exists>docs. qdrant_retrieval sr query top_k name = Inr docs)
   \<and> (collection_exists (qdrant_client sr) name = Inr False \<longrightarrow>
        qdrant_retrieval sr query top_k name = Inr []
        \<and> hybrid_search (qdrant_client sr) (models sr) (unwrap_query query) name
            = Inl (CollectionMissing name))"
  by (auto simp: qdrant_retrieval_def qdrant_retrieval_body_def hybrid_search_def
      split: sum.splits)

theorem qdrant_retrieval_missing_collection_witness:
  "qdrant_retrieval example_retrieval (QueryString ''refund policy'') 5 ''ghost'' = Inr []
   \<and> hybrid_search example_client example_models (Some ''refund policy'') ''ghost''
       = Inl (CollectionMissing ''ghost'')"
  using qdrant_retrieval_missing_collection
          [where sr = example_retrieval and name = "''ghost''"
             and query = "QueryString ''refund policy''" and top_k = 5]
  by (simp add: example_retrieval_def example_client_def)

section \<open>The merged pool of the multi-collection retriever\<close>

lemma sort_key_const: "sort_key (\<lambda>x. c) xs = xs"
proof (induction xs)
  case Nil
  then show ?case by simp
next
  case (Cons x xs)
  have "insort_key (\<lambda>x. c) x ys = x # ys" for ys
    by (cases ys) simp_all
  with Cons show ?case by simp
qed

lemma sorted_reverse_sort_key_of: "sorted_reverse sort_key_of pool = pool"
  by (simp add: sorted_reverse_def sort_key_of_def sort_key_const)

lemma qdrant_retrieval_Inr:
  "qdrant_retrieval sr query top_k name =
     Inr (case qdrant_retrieval_body sr query top_k name of Inl e \<Rightarrow> [] | Inr ds \<Rightarrow> ds)"
  by (simp add: qdrant_retrieval_def split: sum.splits)

lemma gather_Inr: "gather (map (\<lambda>x. Inr (f x)) xs) = Inr (map f xs)"
  by (induction xs) simp_all

lemma zip_map_concat:
  "concat (map (\<lambda>(a, r). g a r) (zip xs (map f xs))) = concat (map (\<lambda>a. g a (f a)) xs)"
  by (induction xs) simp_all

lemma retrieve_from_collections_pool:
  "retrieve_from_collections sr rdb query uid org top_k ip io =
     py_take top_k (concat (map (collection_results sr query top_k)
                                (get_user_collections rdb uid org ip io)))"
proof -
  let ?f = "\<lambda>name. case qdrant_retrieval_body sr (QueryString query) top_k name of
                      Inl e \<Rightarrow> [] | Inr ds \<Rightarrow> ds"
  let ?cs = "get_user_collections rdb uid org ip io"
  have g: "gather (map (\<lambda>name. qdrant_retrieval sr (QueryString query) top_k name)
                       (map info_collection_name ?cs))
           = Inr (map (\<lambda>c. ?f (info_collection_name c)) ?cs)"
    by (simp add: qdrant_retrieval_Inr
        gather_Inr[of "\<lambda>c. ?f (info_collection_name c)" ?cs, simplified] comp_def)
  have c: "collection_results sr query top_k = (\<lambda>c. map (add_source c) (?f (info_collection_name c)))"
    by (auto simp: collection_results_def fun_eq_iff split: sum.splits)
  show ?thesis
    unfolding retrieve_from_collections_def Let_def g c
    using zip_map_concat[of "\<lambda>c r. map (add_source c) r" ?cs "\<lambda>c. ?f (info_collection_name c)"]
    by (simp add: sorted_reverse_sort_key_of)
qed

text \<open>The example index, evaluated.\<close>

lemma ex_hybrid:
  "hybrid_search example_client example_models (Some ''refund policy'') ''alpha'' = Inr [hit1, hit2]"
  by (simp add: hybrid_search_def example_client_def example_models_def point_to_document_def
      hit1_def hit2_def)

lemma strip_plain: "strip ''intro'' = ''intro''" "strip ''terms'' = ''terms''"
  by (simp_all add: strip_def isspace_def)

lemma upt_two: "[0..<2] = [0, Suc 0]"
  by (simp add: upt_rec numeral_2_eq_2)

lemma map_fst_filter_zip:
  "map fst (filter (\<lambda>(i, s). P s) (zip xs (map f xs))) = filter (\<lambda>i. P (f i)) xs"
  by (induction xs) simp_all

lemma filtered_indices_filter:
  "filtered_indices scores threshold =
     filter (\<lambda>i. scores ! i \<ge> threshold) (sorted_reverse (\<lambda>x. scores ! x) [0..<length scores])"
  by (simp add: filtered_indices_def Let_def map_fst_filter_zip)

lemma ex_kept: "filtered_indices [1 / 2, 1 / 2] (3 / 10) = [0, Suc 0]"
  by (simp add: filtered_indices_filter sorted_reverse_def upt_two)

lemma ex_map: "content_to_results_map [hit1, hit2] = [(''intro'', hit1), (''terms'', hit2)]"
  by (simp add: content_to_results_map_def hit1_def hit2_def strip_plain)

lemma ex_rerank:
  "query_retrieval_reranking example_reranker [hit1, hit2] (Some ''refund policy'') 0.3
     = Inr [hit1, hit2]"
  by (simp add: query_retrieval_reranking_def example_reranker_def Let_def ex_kept ex_map)
     (simp add: hit1_def hit2_def strip_plain)

lemma ex_headers:
  "query_headers example_client [hit1, hit2] ''alpha'' = Inr [section_H1, section_H2]"
  by (simp add: query_headers_def query_headers_scored_def example_client_def
      sorted_reverse_def hit1_def hit2_def md_def section_H1_def section_H2_def)

lemma ex_alpha:
  "qdrant_retrieval_body example_retrieval (QueryString ''refund policy'') k ''alpha''
     = Inr (py_take k [section_H1, section_H2])"
proof -
  have "collection_exists example_client ''alpha'' = Inr True"
    by (simp add: example_client_def)
  then show ?thesis
    by (simp add: qdrant_retrieval_body_def example_retrieval_def ex_hybrid ex_rerank ex_headers)
qed

lemma ex_docs:
  "qdrant_retrieval_body example_retrieval (QueryString ''refund policy'') k ''docs''
     = Inl IndexUnavailable"
  by (simp add: qdrant_retrieval_body_def example_retrieval_def example_client_def
      example_models_def hybrid_search_def)

lemma ex_collections:
  "get_user_collections example_db ''A'' (Some ''O'') True True = [alpha_info] @ docs_info # []"
  by (simp add: get_user_collections_def example_db_def alpha_collection_def docs_collection_def
      alpha_info_def docs_info_def)

text \<open>
  C10. The key of the final sort is the same for every document, so the sort returns
  the pool as it is, and the result is the concatenation of the collections' result
  lists, in the order \<open>get_user_collections\<close> lists the collections, cut by the slice
  \<open>[:top_k]\<close>.
\<close>

theorem retrieve_from_collections_order:
  "sorted_reverse sort_key_of pool = pool
   \<and> retrieve_from_collections sr rdb query uid org top_k ip io =
       py_take top_k (concat (map (collection_results sr query top_k)
                                  (get_user_collections rdb uid org ip io)))"
  by (simp add: sorted_reverse_sort_key_of retrieve_from_collections_pool)

theorem retrieve_from_collections_order_witness:
  "retrieve_from_collections example_retrieval example_db ''refund policy'' ''A'' (Some ''O'') 1
     True True = [add_source alpha_info section_H1]"
  using retrieve_from_collections_order
          [where sr = example_retrieval and rdb = example_db and query = "''refund policy''"
             and uid = "''A''" and org = "Some ''O''" and top_k = 1 and ip = True and io = True]
  by (simp add: ex_collections collection_results_def ex_alpha ex_docs alpha_info_def
      docs_info_def py_take_def)

section \<open>Isolation of a failing collection\<close>



section \<open>Reassembly of sections\<close>

text \<open>
  C2 (the code at the failing input). Two chunks of the collection \<open>kb\<close> come from
  different documents and carry the same \<open>headers\<close>. \<open>query_headers\<close> keys its
  dictionary by \<open>headers\<close> alone, so it returns one section, that of the first
  document, with score 2, and the section of \<open>faq.pdf\<close> is lost; one section per
  (document name, headers) pair would be two sections with score 1 each.
\<close>

theorem query_headers_same_headers:
  "query_headers_scored kb_client [chunk_policy, chunk_faq] ''kb''
     = Inr [\<lparr>document = \<lparr>page_content = ''within 30 days'',
                           metadata = md ''policy.pdf'' ''Header 1: Returns'' ''1''\<rparr>,
             score = 2\<rparr>]
   \<and> query_headers kb_client [chunk_policy, chunk_faq] ''kb''
     = Inr [\<lparr>page_content = ''within 30 days'',
             metadata = md ''policy.pdf'' ''Header 1: Returns'' ''1''\<rparr>]"
  by (simp add: query_headers_def query_headers_scored_def kb_client_def chunk_policy_def
      chunk_faq_def md_def sorted_reverse_def)

section \<open>Reranking\<close>

text \<open>
  C3 (the code at the failing input). Two candidates have the same stripped content
  and different metadata, and both pass the threshold. The map from content back to
  candidate keeps the later candidate only, so the result holds \<open>dup_b\<close> twice and
  \<open>dup_a\<close>, with its metadata, is gone: the result is not drawn from the candidates one
  for one.
\<close>

lemma strip_same: "strip ''same text'' = ''same text''" "strip ''same text '' = ''same text''"
  by (simp_all add: strip_def isspace_def)

lemma dup_map: "content_to_results_map [dup_a, dup_b] = [(''same text'', dup_b)]"
  by (simp add: content_to_results_map_def dup_a_def dup_b_def strip_same)

theorem query_retrieval_reranking_duplicate_content:
  "query_retrieval_reranking example_reranker [dup_a, dup_b] (Some ''refund policy'') 0.3
     = Inr [dup_b, dup_b]"
  by (simp add: query_retrieval_reranking_def example_reranker_def Let_def ex_kept dup_map)
     (simp add: dup_a_def dup_b_def strip_same)

section \<open>A scorer failure on one candidate\<close>

lemma candidate_embeddings_failure:
  "c \<in> set candidates \<Longrightarrow> encode (content c) = Inl e \<Longrightarrow>
   \<exists>e'. candidate_embeddings encode candidates = Inl e'"
  by (induction candidates)
     (auto simp: request_ranking_triton_kserve_def split: sum.splits)

text \<open>
  C7 (the code at the failing input). The encoder raises on the candidate \<open>bad\<close> only.
  Alone, the candidate \<open>good\<close> is scored 1 and returned; in a batch with \<open>bad\<close> the
  result is empty, so the failure of one item removes its sibling as well. When the
  embedding of \<open>bad\<close> is merely empty, the source does isolate the item: it is scored 0
  and \<open>good\<close> is returned.
\<close>

theorem process_candidates_one_failure:
  "example_encode (content cand_good) = Inr [1]
   \<and> example_encode (content cand_bad) = Inl InferenceFailure
   \<and> process_candidates example_encode [cand_good] (Some ''q'') 0.5
       = Inr [\<lparr>res_doc_id = ''1'', res_score = 1, res_content = ''good'',
               res_organization_id = None\<rparr>]
   \<and> process_candidates example_encode [cand_good, cand_bad] (Some ''q'') 0.5 = Inr []
   \<and> process_candidates empty_encode [cand_good, cand_bad] (Some ''q'') 0.5
       = Inr [\<lparr>res_doc_id = ''1'', res_score = 1, res_content = ''good'',
               res_organization_id = None\<rparr>]"
  by (simp add: process_candidates_def process_candidates_body_def example_encode_def
      empty_encode_def cand_good_def cand_bad_def request_ranking_triton_kserve_def
      pad_or_truncate_def rerank_embeddings_def cosine_similarity_def sorted_reverse_def
      map_result_def Let_def)

text \<open>
  The same in general: \<open>process_candidates\<close> never raises, and when the encoder raises
  on any one candidate the result for the whole batch is empty.
\<close>

lemma process_candidates_scorer_failure:
  "(\<exists>results. process_candidates encode candidates query threshold = Inr results)
   \<and> (c \<in> set candidates \<and> encode (content c) = Inl e \<longrightarrow>
        process_candidates encode candidates query threshold = Inr [])"
proof -
  have "process_candidates encode candidates query threshold = Inr []"
    if "c \<in> set candidates" "encode (content c) = Inl e"
  proof -
    from candidate_embeddings_failure[of c candidates encode e] that
    obtain e' where "candidate_embeddings encode candidates = Inl e'" by blast
    then show ?thesis
      by (simp add: process_candidates_def process_candidates_body_def)
  qed
  moreover have "\<exists>results. process_candidates encode candidates query threshold = Inr results"
    by (simp add: process_candidates_def split: sum.splits)
  ultimately show ?thesis by blast
qed

section \<open>Reranking candidates whose contents differ\<close>

text \<open>
  When the stripped contents of the candidates are pairwise different and the reranker
  returns one score per pair, the result consists of the candidates themselves, taken
  at the indices that pass the threshold: each index at most once, in descending order
  of score, every score at least the threshold.
\<close>

lemma fold_dict_set_other:
  "key \<notin> k ` set cs \<Longrightarrow>
   dict_get (fold (\<lambda>c m. dict_set (k c) c m) cs m) key = dict_get m key"
  by (induction cs arbitrary: m) (auto simp: dict_get_dict_set)

lemma fold_dict_set_distinct:
  "distinct (map k cs) \<Longrightarrow> c \<in> set cs \<Longrightarrow>
   dict_get (fold (\<lambda>c m. dict_set (k c) c m) cs m) (k c) = Some c"
proof (induction cs arbitrary: m)
  case Nil
  then show ?case by simp
next
  case (Cons x xs)
  show ?case
  proof (cases "c = x")
    case True
    with Cons.prems have "k x \<notin> k ` set xs" by auto
    with True show ?thesis by (simp add: fold_dict_set_other dict_get_dict_set)
  next
    case False
    with Cons show ?thesis by simp
  qed
qed

lemma concat_map_singletons:
  "(\<And>x. x \<in> set xs \<Longrightarrow> f x = [g x]) \<Longrightarrow> concat (map f xs) = map g xs"
  by (induction xs) simp_all

lemma set_filtered_indices:
  "set (filtered_indices scores threshold) = {i. i < length scores \<and> threshold \<le> scores ! i}"
  by (auto simp: filtered_indices_filter sorted_reverse_def)

lemma distinct_filtered_indices: "distinct (filtered_indices scores threshold)"
  by (simp add: filtered_indices_filter sorted_reverse_def)

lemma sorted_filtered_indices:
  "sorted (map (\<lambda>i. - scores ! i) (filtered_indices scores threshold))"
  by (simp add: filtered_indices_filter sorted_reverse_def sorted_filter)

lemma query_retrieval_reranking_distinct:
  assumes d: "distinct (map (\<lambda>c. strip (page_content c)) candidates)"
    and sc: "compute_score (map (\<lambda>c. (query, strip (page_content c))) candidates) = Inr scores"
    and len: "length scores = length candidates"
  shows "query_retrieval_reranking compute_score candidates query threshold
           = Inr (map (\<lambda>i. candidates ! i) (filtered_indices scores threshold))"
proof (cases "candidates = []")
  case True
  with len show ?thesis
    by (simp add: query_retrieval_reranking_def filtered_indices_def sorted_reverse_def)
next
  case False
  let ?kept = "filtered_indices scores threshold"
  have in_range: "i < length candidates" if "i \<in> set ?kept" for i
    using that len by (simp add: set_filtered_indices)
  have mapped: "(case dict_get (content_to_results_map candidates)
                      (snd (map (\<lambda>c. (query, strip (page_content c))) candidates ! i)) of
                 Some candidate \<Rightarrow> [candidate] | None \<Rightarrow> []) = [candidates ! i]"
    if "i \<in> set ?kept" for i
    using fold_dict_set_distinct[OF d, of "candidates ! i" "[]"] in_range[OF that]
    by (simp add: content_to_results_map_def)
  have "concat (map (\<lambda>content. case dict_get (content_to_results_map candidates) content of
                                  Some candidate \<Rightarrow> [candidate] | None \<Rightarrow> [])
                    (map (\<lambda>index. snd (map (\<lambda>c. (query, strip (page_content c))) candidates ! index))
                         ?kept))
        = map (\<lambda>i. candidates ! i) ?kept"
    using mapped by (simp add: comp_def concat_map_singletons[where g = "\<lambda>i. candidates ! i"])
  moreover have "\<not> (\<exists>index \<in> set ?kept. length candidates \<le> index)"
    using in_range by (auto simp: not_le)
  ultimately show ?thesis
    using False sc by (simp add: query_retrieval_reranking_def Let_def comp_def)
qed

section \<open>Reassembly keyed by headers\<close>

text \<open>
  What \<open>query_headers\<close> does for every input on which it returns: one section for each
  \<open>headers\<close> value among the chunks, whatever the document names, with the number of
  chunks carrying that value as its score.
\<close>

lemma map_fst_dict_set:
  "map fst (dict_set k v kvs) = (if k \<in> fst ` set kvs then map fst kvs else map fst kvs @ [k])"
proof (induction kvs)
  case Nil
  then show ?case by simp
next
  case (Cons kv kvs)
  then show ?case by (cases kv) force
qed

lemma dict_get_Some_mem: "dict_get kvs k = Some v \<Longrightarrow> (k, v) \<in> set kvs"
  by (induction kvs) (auto split: if_splits)

lemma dict_get_distinct: "distinct (map fst kvs) \<Longrightarrow> (k, v) \<in> set kvs \<Longrightarrow> dict_get kvs k = Some v"
  by (induction kvs) (auto simp: rev_image_eqI)

lemma set_dict_set:
  "set (dict_set k v kvs) \<subseteq> insert (k, v) (set kvs)"
  by (induction kvs) (auto split: if_splits)

lemma keyed_by_headers_dict_set:
  assumes "keyed_by_headers processed" and "headers (metadata (document e)) = Some h"
  shows "keyed_by_headers (dict_set h e processed)"
proof -
  have "distinct (map fst (dict_set h e processed))"
    using assms(1) by (auto simp: keyed_by_headers_def map_fst_dict_set)
  moreover have "list_all (\<lambda>item. headers (metadata (document (snd item))) = Some (fst item))
                   (dict_set h e processed)"
    using assms set_dict_set[of h e processed]
    by (auto simp: keyed_by_headers_def list_all_iff)
  ultimately show ?thesis by (simp add: keyed_by_headers_def)
qed

lemma process_documents_keyed:
  "process_documents cl name n docs processed = Inr res \<Longrightarrow> keyed_by_headers processed \<Longrightarrow>
   keyed_by_headers res"
proof (induction docs arbitrary: processed)
  case Nil
  then show ?case by simp
next
  case (Cons doc docs)
  from Cons.prems(1) obtain h where h: "headers (metadata doc) = Some h"
    by (auto split: option.splits)
  show ?case
  proof (cases "dict_get processed h")
    case (Some entry)
    from dict_get_Some_mem[OF Some] Cons.prems(2)
    have "headers (metadata (document entry)) = Some h"
      by (auto simp: keyed_by_headers_def list_all_iff)
    then have "keyed_by_headers (dict_set h (entry\<lparr>score := score entry + 1\<rparr>) processed)"
      using Cons.prems(2) by (intro keyed_by_headers_dict_set) simp_all
    with Cons.IH Cons.prems(1) h Some show ?thesis by simp
  next
    case None
    with Cons.prems(1) h obtain e where
      rest: "process_documents cl name n docs (dict_set h e processed) = Inr res"
      and e: "headers (metadata (document e)) = Some h"
      by (auto split: option.splits sum.splits)
    show ?thesis
      by (rule Cons.IH[OF rest]) (rule keyed_by_headers_dict_set[OF Cons.prems(2) e])
  qed
qed

lemma process_documents_scores:
  "process_documents cl name n docs processed = Inr res \<Longrightarrow>
   map_option score (dict_get res h) =
     (case map_option score (dict_get processed h) of
        Some s \<Rightarrow> Some (s + headers_count h docs)
      | None \<Rightarrow> if headers_count h docs = 0 then None else Some (headers_count h docs))"
proof (induction docs arbitrary: processed)
  case Nil
  then show ?case by (auto simp: headers_count_def split: option.splits)
next
  case (Cons doc docs)
  from Cons.prems obtain h' where h': "headers (metadata doc) = Some h'"
    by (auto split: option.splits)
  have cnt: "headers_count h (doc # docs) = (if h' = h then 1 else 0) + headers_count h docs"
    using h' by (simp add: headers_count_def)
  show ?case
  proof (cases "dict_get processed h'")
    case (Some entry)
    with Cons.prems h' have
      "process_documents cl name n docs (dict_set h' (entry\<lparr>score := score entry + 1\<rparr>) processed)
         = Inr res" by simp
    from Cons.IH[OF this] Some show ?thesis
      by (auto simp: cnt dict_get_dict_set split: option.splits)
  next
    case None
    with Cons.prems h' obtain e where
      rest: "process_documents cl name n docs (dict_set h' e processed) = Inr res"
      and e: "score e = 1"
      by (auto split: option.splits sum.splits)
    from Cons.IH[OF rest] None e show ?thesis
      by (auto simp: cnt dict_get_dict_set split: option.splits)
  qed
qed

lemma query_headers_by_headers:
  assumes "query_headers_scored cl docs name = Inr secs"
  shows "distinct (map (\<lambda>e. headers (metadata (document e))) secs)"
    and "\<forall>e \<in> set secs. \<exists>h. headers (metadata (document e)) = Some h
                                \<and> score e = headers_count h docs"
    and "\<forall>h. 0 < headers_count h docs \<longrightarrow>
             (\<exists>e \<in> set secs. headers (metadata (document e)) = Some h)"
proof -
  from assms obtain n res where
    res: "process_documents cl name n docs [] = Inr res"
    and secs: "secs = map snd (sorted_reverse (\<lambda>item. int (score (snd item))) res)"
    by (auto simp: query_headers_scored_def split: sum.splits)
  have keyed: "keyed_by_headers res"
    using process_documents_keyed[OF res] by (simp add: keyed_by_headers_def)
  have sc: "map_option score (dict_get res h) =
              (if headers_count h docs = 0 then None else Some (headers_count h docs))" for h
    using process_documents_scores[OF res, of h] by simp
  let ?sorted = "sorted_reverse (\<lambda>item. int (score (snd item))) res"
  have set_sorted: "set ?sorted = set res" and dist_sorted: "distinct (map fst ?sorted)"
    using keyed
    by (simp_all add: sorted_reverse_def keyed_by_headers_def distinct_map)
  have key: "headers (metadata (document (snd item))) = Some (fst item)" if "item \<in> set res" for item
    using keyed that by (auto simp: keyed_by_headers_def list_all_iff)
  have "map (\<lambda>e. headers (metadata (document e))) secs = map (\<lambda>item. Some (fst item)) ?sorted"
    using key set_sorted by (simp add: secs)
  moreover have "distinct (map (\<lambda>item. Some (fst item)) ?sorted)"
    using dist_sorted by (auto simp: distinct_map inj_on_def)
  ultimately show "distinct (map (\<lambda>e. headers (metadata (document e))) secs)"
    by simp
  show "\<forall>e \<in> set secs. \<exists>h. headers (metadata (document e)) = Some h
                                \<and> score e = headers_count h docs"
  proof
    fix e assume "e \<in> set secs"
    then obtain h where he: "(h, e) \<in> set res"
      using set_sorted by (auto simp: secs)
    with keyed have "dict_get res h = Some e"
      by (simp add: dict_get_distinct keyed_by_headers_def)
    with sc[of h] have "score e = headers_count h docs"
      by (auto split: if_splits)
    with key[OF he] show "\<exists>h. headers (metadata (document e)) = Some h
                                \<and> score e = headers_count h docs" by auto
  qed
  show "\<forall>h. 0 < headers_count h docs \<longrightarrow>
             (\<exists>e \<in> set secs. headers (metadata (document e)) = Some h)"
  proof (intro allI impI)
    fix h assume "0 < headers_count h docs"
    with sc[of h] obtain e where "dict_get res h = Some e" by auto
    from dict_get_Some_mem[OF this] have mem: "(h, e) \<in> set res" .
    then have "e \<in> set secs" using set_sorted by (force simp: secs)
    with key[OF mem] show "\<exists>e \<in> set secs. headers (metadata (document e)) = Some h" by auto
  qed
qed

end
